theory Spec2Isabelle
  imports Main "HOL-Library.AList"
begin

section \<open>Python values, dictionaries and strings\<close>

text \<open>
  The parameter values that reach the reader framework are scalars: the text of an input
  box, or a value decoded from the JSON column of the chart history. A value carries its
  runtime type; \<open>bool\<close> is a type of its own, so that \<open>type(True) != int\<close> as in Python.
  Floating-point values are left out of the model.
\<close>

datatype pytype = PyStr | PyInt | PyBool | PyNoneType

datatype pyval = VStr string | VInt int | VBool bool | VNone

fun type_of :: "pyval \<Rightarrow> pytype" where
  "type_of (VStr s) = PyStr"
| "type_of (VInt i) = PyInt"
| "type_of (VBool b) = PyBool"
| "type_of VNone = PyNoneType"

text \<open>Truth value testing, the \<open>not v\<close> of the source is \<open>\<not> truthy v\<close>.\<close>

fun truthy :: "pyval \<Rightarrow> bool" where
  "truthy (VStr s) = (s \<noteq> [])"
| "truthy (VInt i) = (i \<noteq> 0)"
| "truthy (VBool b) = b"
| "truthy VNone = False"

text \<open>
  A \<open>dict\<close> is an association list in insertion order; \<open>map_of\<close> is the lookup,
  \<open>AList.update\<close> the item assignment (in place for a key that is present, appended
  otherwise) and \<open>AList.delete\<close> the removal of a key.
\<close>

type_synonym 'v dict = "(string \<times> 'v) list"

definition keys :: "'v dict \<Rightarrow> string list" where
  "keys d = map fst d"

text \<open>\<open>d.update(other)\<close>: the items of \<open>other\<close> are assigned one after the other.\<close>

definition dict_update :: "'v dict \<Rightarrow> 'v dict \<Rightarrow> 'v dict" where
  "dict_update d other = foldl (\<lambda>acc kv. AList.update (fst kv) (snd kv) acc) d other"

text \<open>\<open>d.get(k)\<close> with the default \<open>None\<close>.\<close>

definition dict_get :: "pyval dict \<Rightarrow> string \<Rightarrow> pyval" where
  "dict_get d k = (case map_of d k of Some v \<Rightarrow> v | None \<Rightarrow> VNone)"

text \<open>\<open>s.split(c)\<close> for a one-character separator: the segments between the separators.\<close>

fun split_chr :: "char \<Rightarrow> string \<Rightarrow> string list" where
  "split_chr c [] = [[]]"
| "split_chr c (x # xs) =
     (if x = c then [] # split_chr c xs
      else (case split_chr c xs of
              [] \<Rightarrow> [[x]]
            | w # ws \<Rightarrow> (x # w) # ws))"

text \<open>\<open>s.endswith(t)\<close>.\<close>

definition endswith :: "string \<Rightarrow> string \<Rightarrow> bool" where
  "endswith s t = (length t \<le> length s \<and> drop (length s - length t) s = t)"

text \<open>\<open>str(v)\<close>, as an f-string interpolates a value.\<close>

fun str_nat :: "nat \<Rightarrow> string" where
  "str_nat n =
     (if n < 10 then [char_of (48 + n)]
      else str_nat (n div 10) @ [char_of (48 + n mod 10)])"

declare str_nat.simps [simp del]

fun py_str :: "pyval \<Rightarrow> string" where
  "py_str (VStr s) = s"
| "py_str (VInt i) = (if i < 0 then CHR ''-'' # str_nat (nat (- i)) else str_nat (nat i))"
| "py_str (VBool b) = (if b then ''True'' else ''False'')"
| "py_str VNone = ''None''"

section \<open>Errors\<close>

text \<open>
  Every \<open>raise\<close> and every failing \<open>assert\<close> of the source is a constructor. The
  parameter validation raises, in the order of the source:
  \<^item> \<open>ParametersNotGiven\<close>: AssertionError, no parameters were given at all; it carries
    the required schema (the specification's MissingParametersError);
  \<^item> \<open>NotEnoughParameters\<close>: AssertionError, it carries the required names that are
    missing (MissingParametersError);
  \<^item> \<open>KeyError\<close>: a subscript with a key that the dictionary or the table does not have;
  \<^item> \<open>ValueError\<close>: the value of the named field is falsy (EmptyValueError);
  \<^item> \<open>TypeError\<close>: the named field, the required type and the type found
    (TypeMismatchError).
  The readers assert that their extension is declared (\<open>ExtensionNotDeclared\<close>) and that
  the path ends with it (\<open>ExtensionMismatch\<close>). The file manager asserts that the path
  has a dot (\<open>MissingDotError\<close>), that the suffix is in the list of allowed extensions
  (\<open>UnknownExtensionError\<close>), that the suffix has a reader
  (\<open>UnsupportedExtensionError\<close>) and that a reader class was found
  (\<open>ReaderNotFoundError\<close>). \<open>NotSubscriptable\<close> and \<open>BadListIndex\<close> are the TypeError of
  subscripting \<open>None\<close> and of subscripting a list with something that is not an integer,
  \<open>IndexError\<close> is a list index out of range, and \<open>SourceReadError\<close> is whatever the
  table library raises while it reads a source.
\<close>

datatype error =
    ParametersNotGiven "pytype dict"
  | NotEnoughParameters "string set"
  | KeyError pyval
  | ValueError string
  | TypeError string pytype pytype
  | ExtensionNotDeclared
  | ExtensionMismatch string
  | MissingDotError
  | UnknownExtensionError
  | UnsupportedExtensionError
  | ReaderNotFoundError
  | NotSubscriptable
  | BadListIndex
  | IndexError
  | SourceReadError string

section \<open>Validation of the required fields\<close>

text \<open>
  The body of the loop of \<open>validate_required_fields\<close> for one field: the type of the
  provided value, the subscript of the required schema (KeyError for a name the schema
  does not have), the test for a falsy value and the comparison of the two types.
\<close>

definition validate_field :: "pytype dict \<Rightarrow> pyval dict \<Rightarrow> string \<Rightarrow> error + unit" where
  "validate_field required_fields provided_fields field =
     (case map_of provided_fields field of
        None \<Rightarrow> Inl (KeyError (VStr field))
      | Some v \<Rightarrow>
          (let field_type = type_of v in
           case map_of required_fields field of
             None \<Rightarrow> Inl (KeyError (VStr field))
           | Some required_field_type \<Rightarrow>
               if \<not> truthy v then Inl (ValueError field)
               else if field_type \<noteq> required_field_type
                 then Inl (TypeError field required_field_type field_type)
               else Inr ()))"

fun validate_loop :: "pytype dict \<Rightarrow> pyval dict \<Rightarrow> string list \<Rightarrow> error + unit" where
  "validate_loop required_fields provided_fields [] = Inr ()"
| "validate_loop required_fields provided_fields (field # fields) =
     (case validate_field required_fields provided_fields field of
        Inl e \<Rightarrow> Inl e
      | Inr u \<Rightarrow> validate_loop required_fields provided_fields fields)"

text \<open>
  \<open>validate_required_fields\<close> with the order in which the set of the provided names is
  iterated given as \<open>order\<close>: Python leaves the iteration order of a set open.
\<close>

definition validate_required_fields_in ::
  "string list \<Rightarrow> pytype dict \<Rightarrow> pyval dict \<Rightarrow> error + unit" where
  "validate_required_fields_in order required_fields provided_fields =
     (if required_fields = [] then Inr ()
      else if provided_fields = [] then Inl (ParametersNotGiven required_fields)
      else
        (let extra_kwargs_keys = set (keys provided_fields);
             required_fields_keys = set (keys required_fields)
         in if required_fields_keys - extra_kwargs_keys \<noteq> {}
            then Inl (NotEnoughParameters (required_fields_keys - extra_kwargs_keys))
            else validate_loop required_fields provided_fields order))"

text \<open>
  Where the order is not given the names are taken in the insertion order of the
  dictionary. Lemma \<open>validate_order_irrelevant\<close> below shows that success does not depend
  on this choice.
\<close>

definition validate_required_fields :: "pytype dict \<Rightarrow> pyval dict \<Rightarrow> error + unit" where
  "validate_required_fields required_fields provided_fields =
     validate_required_fields_in (remdups (keys provided_fields)) required_fields provided_fields"

section \<open>Tables and the table library\<close>

text \<open>
  A table (a pandas DataFrame) is a list of named columns; a column has an element type
  and its cells. \<open>select_dtypes\<close> with \<open>include=np.number\<close> returns a new table with the
  columns of an integer or floating-point element type and leaves its argument as it is.
\<close>

datatype dtype = Int64 | Float64 | BoolDtype | ObjectDtype | Datetime64

type_synonym column = "dtype \<times> pyval list"

type_synonym table = "column dict"

fun is_number :: "dtype \<Rightarrow> bool" where
  "is_number Int64 = True"
| "is_number Float64 = True"
| "is_number BoolDtype = False"
| "is_number ObjectDtype = False"
| "is_number Datetime64 = False"

definition select_dtypes_number :: "table \<Rightarrow> table" where
  "select_dtypes_number dataframe = filter (\<lambda>c. is_number (fst (snd c))) dataframe"

definition columns :: "table \<Rightarrow> string list" where
  "columns dataframe = map fst dataframe"

text \<open>
  What the parsers of the table library and the database engine return for a path, or
  for a table name and a connection URL, is the environment of the program: a record of
  functions, each giving a table or the error it raises. \<open>read_html\<close> gives the list of
  all tables of the document.
\<close>

record pandas =
  read_csv :: "string \<Rightarrow> error + table"
  read_json :: "string \<Rightarrow> error + table"
  read_pickle :: "string \<Rightarrow> error + table"
  read_html :: "string \<Rightarrow> error + table list"
  read_xml :: "string \<Rightarrow> error + table"
  read_sql_table :: "pyval \<Rightarrow> string \<Rightarrow> error + table"

section \<open>The reader classes\<close>

datatype reader_class =
    CsvReader | JsonReader | PickleReader | HtmlReader | XmlReader | SqliteReader
  | MySQLReader | PostgreSQlReader | MariaDBReader

fun is_remote :: "reader_class \<Rightarrow> bool" where
  "is_remote MySQLReader = True"
| "is_remote PostgreSQlReader = True"
| "is_remote MariaDBReader = True"
| "is_remote c = False"

fun allowed_extension :: "reader_class \<Rightarrow> string" where
  "allowed_extension CsvReader = ''csv''"
| "allowed_extension JsonReader = ''json''"
| "allowed_extension PickleReader = ''pickle''"
| "allowed_extension HtmlReader = ''html''"
| "allowed_extension XmlReader = ''xml''"
| "allowed_extension SqliteReader = ''db''"
| "allowed_extension MySQLReader = ''mysql+pymysql''"
| "allowed_extension PostgreSQlReader = ''postgresql+psycopg2''"
| "allowed_extension MariaDBReader = ''mariadb+pymysql''"

fun verbose_name :: "reader_class \<Rightarrow> string" where
  "verbose_name CsvReader = ''CSV''"
| "verbose_name JsonReader = ''JSON''"
| "verbose_name PickleReader = ''Pickle''"
| "verbose_name HtmlReader = ''HTML''"
| "verbose_name XmlReader = ''XML''"
| "verbose_name SqliteReader = ''SQLite''"
| "verbose_name MySQLReader = ''MySQL''"
| "verbose_name PostgreSQlReader = ''PostgreSQL''"
| "verbose_name MariaDBReader = ''MariaDB''"

text \<open>
  The required fields of a class: those of \<open>BaseRemoteDatabaseReader\<close> for the three
  database readers, the table name for SQLite, none (the empty dictionary of
  \<open>BaseReader\<close>) for the others.
\<close>

definition BaseRemoteDatabaseReader_required_fields :: "pytype dict" where
  "BaseRemoteDatabaseReader_required_fields =
     [(''table_name'', PyStr), (''hostname'', PyStr), (''port'', PyStr),
      (''user'', PyStr), (''password'', PyStr), (''schema'', PyStr)]"

fun required_fields :: "reader_class \<Rightarrow> pytype dict" where
  "required_fields SqliteReader = [(''table_name'', PyStr)]"
| "required_fields c = (if is_remote c then BaseRemoteDatabaseReader_required_fields else [])"

text \<open>
  The display labels are Russian string literals in the source. They are written here in
  English; no property below depends on their text.
\<close>

definition BaseRemoteDatabaseReader_required_fields_verbose_names :: "string dict" where
  "BaseRemoteDatabaseReader_required_fields_verbose_names =
     [(''table_name'', ''Table name''), (''hostname'', ''Host''), (''port'', ''Port''),
      (''user'', ''User''), (''password'', ''Password''), (''schema'', ''Database'')]"

fun required_fields_verbose_names :: "reader_class \<Rightarrow> string dict" where
  "required_fields_verbose_names SqliteReader = [(''table_name'', ''Table name'')]"
| "required_fields_verbose_names c =
     (if is_remote c then BaseRemoteDatabaseReader_required_fields_verbose_names else [])"

text \<open>A reader instance: its class and the attributes that \<open>__init__\<close> sets.\<close>

record reader =
  cls :: reader_class
  file_path :: string
  extra_kwargs :: "pyval dict"
  no_validate :: bool

text \<open>
  \<open>validate_file_path\<close>: every class asserts that its extension is declared (a non-empty
  string); a file reader also asserts that the path ends with it.
\<close>

definition validate_file_path :: "reader_class \<Rightarrow> string \<Rightarrow> error + unit" where
  "validate_file_path c path =
     (if allowed_extension c = [] then Inl ExtensionNotDeclared
      else if is_remote c then Inr ()
      else if \<not> endswith path (allowed_extension c)
        then Inl (ExtensionMismatch (allowed_extension c))
      else Inr ())"

text \<open>\<open>BaseReader.__init__\<close>, which every class inherits.\<close>

definition reader_init :: "reader_class \<Rightarrow> string \<Rightarrow> bool \<Rightarrow> pyval dict \<Rightarrow> error + reader" where
  "reader_init c path no_val kwargs =
     (let self = \<lparr>cls = c, file_path = path, extra_kwargs = kwargs, no_validate = no_val\<rparr> in
      case validate_file_path c path of
        Inl e \<Rightarrow> Inl e
      | Inr u \<Rightarrow>
          if \<not> no_val then
            (case validate_required_fields (required_fields c) kwargs of
               Inl e \<Rightarrow> Inl e
             | Inr u \<Rightarrow> Inr self)
          else Inr self)"

text \<open>
  What \<open>read\<close> returns: a table, the list of tables of \<open>read_html\<close>, or \<open>None\<close> where the
  method ends without a \<open>return\<close>.
\<close>

datatype read_result = RTable table | RTables "table list" | RNone

text \<open>
  The pattern of five of the readers: the table is parsed, \<open>select_dtypes\<close> is called on
  it and its result is bound to nothing, and the parsed table is returned.
\<close>

definition filter_and_return :: "error + table \<Rightarrow> error + read_result" where
  "filter_and_return parsed =
     (case parsed of
        Inl e \<Rightarrow> Inl e
      | Inr dataframe \<Rightarrow>
          (let unused = select_dtypes_number dataframe
           in Inr (RTable dataframe)))"

definition BaseRemoteDatabaseReader_read :: "pandas \<Rightarrow> reader \<Rightarrow> error + read_result" where
  "BaseRemoteDatabaseReader_read pd self =
     (let table_name = dict_get (extra_kwargs self) ''table_name'';
          hostname = dict_get (extra_kwargs self) ''hostname'';
          port = dict_get (extra_kwargs self) ''port'';
          user = dict_get (extra_kwargs self) ''user'';
          password = dict_get (extra_kwargs self) ''password'';
          schema = dict_get (extra_kwargs self) ''schema'';
          engine = allowed_extension (cls self) @ ''://'' @ py_str user @ '':'' @ py_str password
                   @ ''@'' @ py_str hostname @ '':'' @ py_str port @ ''/'' @ py_str schema
      in filter_and_return (read_sql_table pd table_name engine))"

definition SqliteReader_read :: "pandas \<Rightarrow> reader \<Rightarrow> error + read_result" where
  "SqliteReader_read pd self =
     (let table_name = dict_get (extra_kwargs self) ''table_name'';
          engine = ''sqlite:///'' @ file_path self
      in filter_and_return (read_sql_table pd table_name engine))"

definition HtmlReader_read :: "pandas \<Rightarrow> reader \<Rightarrow> error + read_result" where
  "HtmlReader_read pd self =
     (case read_html pd (file_path self) of
        Inl e \<Rightarrow> Inl e
      | Inr dataframe \<Rightarrow> Inr (RTables dataframe))"

definition XmlReader_read :: "pandas \<Rightarrow> reader \<Rightarrow> error + read_result" where
  "XmlReader_read pd self =
     (case read_xml pd (file_path self) of
        Inl e \<Rightarrow> Inl e
      | Inr dataframe \<Rightarrow>
          (let unused = select_dtypes_number dataframe
           in Inr RNone))"

text \<open>\<open>read\<close>, dispatched on the class of the instance.\<close>

definition read :: "pandas \<Rightarrow> reader \<Rightarrow> error + read_result" where
  "read pd self =
     (case cls self of
        CsvReader \<Rightarrow> filter_and_return (read_csv pd (file_path self))
      | JsonReader \<Rightarrow> filter_and_return (read_json pd (file_path self))
      | PickleReader \<Rightarrow> filter_and_return (read_pickle pd (file_path self))
      | HtmlReader \<Rightarrow> HtmlReader_read pd self
      | XmlReader \<Rightarrow> XmlReader_read pd self
      | SqliteReader \<Rightarrow> SqliteReader_read pd self
      | MySQLReader \<Rightarrow> BaseRemoteDatabaseReader_read pd self
      | PostgreSQlReader \<Rightarrow> BaseRemoteDatabaseReader_read pd self
      | MariaDBReader \<Rightarrow> BaseRemoteDatabaseReader_read pd self)"

section \<open>The file manager\<close>

text \<open>
  The class attributes of \<open>FileManager\<close>: the two registries and the list of allowed
  extensions. The methods read them through \<open>self\<close>, so they are a parameter of the
  methods here, and \<open>FileManager\<close> is the value that the class body builds: a dictionary
  comprehension over the subclasses of each base class, in the order of their definition.
\<close>

record file_manager_class =
  extension_readers :: "reader_class dict"
  database_readers :: "reader_class dict"
  allowed_extensions :: "string list"

definition BaseFileReader_subclasses :: "reader_class list" where
  "BaseFileReader_subclasses =
     [CsvReader, JsonReader, PickleReader, HtmlReader, XmlReader, SqliteReader]"

definition BaseRemoteDatabaseReader_subclasses :: "reader_class list" where
  "BaseRemoteDatabaseReader_subclasses = [MySQLReader, PostgreSQlReader, MariaDBReader]"

definition readers_by_extension :: "reader_class list \<Rightarrow> reader_class dict" where
  "readers_by_extension classes =
     foldl (\<lambda>acc c. AList.update (allowed_extension c) c acc) [] classes"

definition FileManager :: file_manager_class where
  "FileManager =
     (let ext_readers = readers_by_extension BaseFileReader_subclasses in
      \<lparr>extension_readers = ext_readers,
       database_readers = readers_by_extension BaseRemoteDatabaseReader_subclasses,
       allowed_extensions = keys ext_readers\<rparr>)"

definition FileManager_required_fields :: "pytype dict" where
  "FileManager_required_fields = [(''plot_verbose'', PyStr), (''plot_value'', PyStr)]"

definition FileManager_required_fields_verbose_names :: "string dict" where
  "FileManager_required_fields_verbose_names =
     [(''plot_verbose'', ''Axis label column''), (''plot_value'', ''Axis value column'')]"

text \<open>The attributes of an instance, as \<open>__init__\<close> sets them.\<close>

record file_manager =
  fm_extra_kwargs :: "pyval dict"
  current_file_path :: "string option"

definition file_manager_init :: file_manager where
  "file_manager_init = \<lparr>fm_extra_kwargs = [], current_file_path = None\<rparr>"

definition validate_file :: "file_manager_class \<Rightarrow> string \<Rightarrow> error + string" where
  "validate_file fmc path =
     (if map_of (database_readers fmc) path \<noteq> None then Inr path
      else if CHR ''.'' \<notin> set path then Inl MissingDotError
      else
        (let extension = last (split_chr CHR ''.'' path) in
         if extension \<notin> set (allowed_extensions fmc) then Inl UnknownExtensionError
         else if map_of (extension_readers fmc) extension = None
           then Inl UnsupportedExtensionError
         else Inr extension))"

definition get_file_reader_class :: "file_manager_class \<Rightarrow> string \<Rightarrow> error + reader_class" where
  "get_file_reader_class fmc extension =
     (let reader_class =
            (case map_of (extension_readers fmc) extension of
               Some c \<Rightarrow> Some c
             | None \<Rightarrow> map_of (database_readers fmc) extension)
      in case reader_class of
           None \<Rightarrow> Inl ReaderNotFoundError
         | Some c \<Rightarrow> Inr c)"

text \<open>
  The two lines with which \<open>file_name\<close>, \<open>_open_file\<close> and \<open>get_required_fields\<close> begin:
  the identifier is validated and the reader class is looked up.
\<close>

definition resolve :: "file_manager_class \<Rightarrow> string \<Rightarrow> error + reader_class" where
  "resolve fmc path =
     (case validate_file fmc path of
        Inl e \<Rightarrow> Inl e
      | Inr extension \<Rightarrow> get_file_reader_class fmc extension)"

definition open_file :: "pandas \<Rightarrow> file_manager_class \<Rightarrow> string \<Rightarrow> pyval dict \<Rightarrow> error + read_result" where
  "open_file pd fmc path kwargs =
     (case resolve fmc path of
        Inl e \<Rightarrow> Inl e
      | Inr reader_class \<Rightarrow>
          (case reader_init reader_class path False kwargs of
             Inl e \<Rightarrow> Inl e
           | Inr r \<Rightarrow> read pd r))"

text \<open>
  \<open>get_required_fields\<close> records the path before anything can fail, so the instance is
  returned in both cases.
\<close>

definition get_required_fields ::
  "file_manager_class \<Rightarrow> file_manager \<Rightarrow> string
     \<Rightarrow> file_manager \<times> (error + pytype dict \<times> string dict)" where
  "get_required_fields fmc self path =
     (let self' = self\<lparr>current_file_path := Some path\<rparr> in
      case resolve fmc path of
        Inl e \<Rightarrow> (self', Inl e)
      | Inr reader_class \<Rightarrow>
          (self',
           Inr (dict_update (required_fields reader_class) FileManager_required_fields,
                dict_update (required_fields_verbose_names reader_class)
                  FileManager_required_fields_verbose_names)))"

text \<open>
  The subscript \<open>file[key]\<close> of \<open>generate_chart\<close>. A table gives the column of that name
  and KeyError for any other key; a list of tables takes an integer index (a negative
  one counts from the end, and \<open>True\<close> and \<open>False\<close> are 1 and 0) and is a TypeError for a
  string; \<open>None\<close> has no subscript.
\<close>

datatype plot_arg = PlotColumn column | PlotTable table

definition list_getitem :: "table list \<Rightarrow> int \<Rightarrow> error + plot_arg" where
  "list_getitem ts i =
     (if 0 \<le> i \<and> i < int (length ts) then Inr (PlotTable (ts ! nat i))
      else if i < 0 \<and> - i \<le> int (length ts) then Inr (PlotTable (ts ! nat (int (length ts) + i)))
      else Inl IndexError)"

fun getitem :: "read_result \<Rightarrow> pyval \<Rightarrow> error + plot_arg" where
  "getitem (RTable dataframe) (VStr name) =
     (case map_of dataframe name of
        None \<Rightarrow> Inl (KeyError (VStr name))
      | Some col \<Rightarrow> Inr (PlotColumn col))"
| "getitem (RTable dataframe) key = Inl (KeyError key)"
| "getitem (RTables ts) (VInt i) = list_getitem ts i"
| "getitem (RTables ts) (VBool b) = list_getitem ts (if b then 1 else 0)"
| "getitem (RTables ts) key = Inl BadListIndex"
| "getitem RNone key = Inl NotSubscriptable"

text \<open>
  The figure that the plotting library returns is opaque; it is represented by the two
  arguments of \<open>ax.plot\<close>, in their order.
\<close>

datatype figure = Figure plot_arg plot_arg

text \<open>
  \<open>generate_chart\<close> with keyword arguments only. \<open>kwargs.pop\<close> raises KeyError for a name
  that is absent; the current path is cleared once the source has been read.
\<close>

definition generate_chart ::
  "pandas \<Rightarrow> file_manager_class \<Rightarrow> file_manager \<Rightarrow> string \<Rightarrow> pyval dict
     \<Rightarrow> file_manager \<times> (error + figure)" where
  "generate_chart pd fmc self path kwargs =
     (case map_of kwargs ''plot_verbose'' of
        None \<Rightarrow> (self, Inl (KeyError (VStr ''plot_verbose'')))
      | Some plot_verbose \<Rightarrow>
          (let kwargs1 = AList.delete ''plot_verbose'' kwargs in
           case map_of kwargs1 ''plot_value'' of
             None \<Rightarrow> (self, Inl (KeyError (VStr ''plot_value'')))
           | Some plot_value \<Rightarrow>
               (let kwargs2 = AList.delete ''plot_value'' kwargs1 in
                case open_file pd fmc path kwargs2 of
                  Inl e \<Rightarrow> (self, Inl e)
                | Inr file \<Rightarrow>
                    (let self' = self\<lparr>current_file_path := None\<rparr> in
                     case getitem file plot_verbose of
                       Inl e \<Rightarrow> (self', Inl e)
                     | Inr xs \<Rightarrow>
                         (case getitem file plot_value of
                            Inl e \<Rightarrow> (self', Inl e)
                          | Inr ys \<Rightarrow> (self', Inr (Figure xs ys)))))))"

section \<open>A sample environment\<close>

text \<open>
  A table with one text column and two integer columns, and an environment in which
  every source holds this table; the HTML document holds it as its only table.
\<close>

definition example_table :: table where
  "example_table =
     [(''name'', (ObjectDtype, [VStr ''a'', VStr ''b''])),
      (''x'', (Int64, [VInt 1, VInt 2])),
      (''y'', (Int64, [VInt 3, VInt 4]))]"

definition example_pandas :: pandas where
  "example_pandas =
     \<lparr>read_csv = (\<lambda>p. Inr example_table),
      read_json = (\<lambda>p. Inr example_table),
      read_pickle = (\<lambda>p. Inr example_table),
      read_html = (\<lambda>p. Inr [example_table]),
      read_xml = (\<lambda>p. Inr example_table),
      read_sql_table = (\<lambda>n e. Inr example_table)\<rparr>"

definition example_credentials :: "pyval dict" where
  "example_credentials =
     [(''table_name'', VStr ''t''), (''hostname'', VStr ''h''), (''port'', VStr ''3306''),
      (''user'', VStr ''u''), (''password'', VStr ''p''), (''schema'', VStr ''s'')]"

section \<open>Properties of the validation\<close>

lemma validate_field_Inr_iff:
  "validate_field R P k = Inr () \<longleftrightarrow>
     (\<exists>v. map_of P k = Some v \<and> truthy v \<and> map_of R k = Some (type_of v))"
  by (auto simp: validate_field_def Let_def split: option.splits)

lemma validate_loop_Inr_iff:
  "validate_loop R P ks = Inr () \<longleftrightarrow> (\<forall>k\<in>set ks. validate_field R P k = Inr ())"
  by (induction ks) (auto split: sum.splits)

text \<open>
  When the validation succeeds, for any order in which the provided names are visited:
  the schema is empty, or no required name is missing and every provided name is in the
  schema with a truthy value of exactly the declared type.
\<close>

lemma validate_success_iff:
  assumes "set order = set (keys P)"
  shows "validate_required_fields_in order R P = Inr () \<longleftrightarrow>
          R = [] \<or>
          (set (keys R) \<subseteq> set (keys P) \<and>
           (\<forall>k\<in>set (keys P).
              \<exists>v. map_of P k = Some v \<and> truthy v \<and> map_of R k = Some (type_of v)))"
proof (cases "R = []")
  case True
  then show ?thesis by (simp add: validate_required_fields_in_def)
next
  case False
  then have ne: "set (keys R) \<noteq> {}" by (simp add: keys_def)
  show ?thesis
  proof (cases "P = []")
    case True
    with False ne show ?thesis by (simp add: validate_required_fields_in_def keys_def)
  next
    case P: False
    with False show ?thesis
      by (simp add: validate_required_fields_in_def Let_def validate_loop_Inr_iff
          validate_field_Inr_iff assms)
  qed
qed

lemma validate_order_irrelevant:
  assumes "set order1 = set (keys P)" and "set order2 = set (keys P)"
  shows "validate_required_fields_in order1 R P = Inr () \<longleftrightarrow>
         validate_required_fields_in order2 R P = Inr ()"
  by (simp add: validate_success_iff [OF assms(1)] validate_success_iff [OF assms(2)])

lemma validate_required_fields_iff:
  "validate_required_fields R P = Inr () \<longleftrightarrow>
     R = [] \<or>
     (set (keys R) \<subseteq> set (keys P) \<and>
      (\<forall>k\<in>set (keys P).
         \<exists>v. map_of P k = Some v \<and> truthy v \<and> map_of R k = Some (type_of v)))"
  unfolding validate_required_fields_def by (rule validate_success_iff) simp

text \<open>
  C1. The validation is claimed to succeed exactly when the schema is empty or every
  required name is provided with a truthy value of exactly the declared type. The loop
  visits the provided names and subscripts the schema with each of them: for the schema
  \<open>{a: str}\<close> and the values \<open>{a: 'x', b: 'y'}\<close>, which meet the claimed condition, it
  raises KeyError for \<open>b\<close>, in either order of the two names.
\<close>

theorem validate_rejects_extra_parameter:
  "validate_required_fields [(''a'', PyStr)] [(''a'', VStr ''x''), (''b'', VStr ''y'')]
     = Inl (KeyError (VStr ''b''))
   \<and> validate_required_fields_in [''b'', ''a''] [(''a'', PyStr)]
       [(''a'', VStr ''x''), (''b'', VStr ''y'')] = Inl (KeyError (VStr ''b''))"
  by (simp add: validate_required_fields_def validate_required_fields_in_def keys_def
      validate_field_def)

section \<open>Properties of the registry\<close>

lemma split_chr_not_Nil: "split_chr c s \<noteq> []"
  by (induction s) (auto split: list.splits)

lemma split_chr_no_sep: "c \<notin> set s \<Longrightarrow> split_chr c s = [s]"
  by (induction s) auto

lemma split_chr_append:
  "split_chr c (p @ c # s) = split_chr c p @ split_chr c s"
proof (induction p)
  case Nil
  show ?case by simp
next
  case (Cons x p)
  obtain w ws where w: "split_chr c p = w # ws"
    using split_chr_not_Nil [of c p] by (cases "split_chr c p") auto
  show ?case using Cons w by simp
qed

lemma last_split_chr_append:
  "last (split_chr c (p @ c # s)) = last (split_chr c s)"
  by (simp add: split_chr_append split_chr_not_Nil)

lemma last_split_chr_suffix:
  "c \<notin> set s \<Longrightarrow> last (split_chr c (p @ c # s)) = s"
  by (simp add: last_split_chr_append split_chr_no_sep)

lemma FileManager_extension_readers:
  "extension_readers FileManager =
     [(''csv'', CsvReader), (''json'', JsonReader), (''pickle'', PickleReader),
      (''html'', HtmlReader), (''xml'', XmlReader), (''db'', SqliteReader)]"
  by (simp add: FileManager_def readers_by_extension_def BaseFileReader_subclasses_def Let_def)

lemma FileManager_database_readers:
  "database_readers FileManager =
     [(''mysql+pymysql'', MySQLReader), (''postgresql+psycopg2'', PostgreSQlReader),
      (''mariadb+pymysql'', MariaDBReader)]"
  by (simp add: FileManager_def readers_by_extension_def
      BaseRemoteDatabaseReader_subclasses_def Let_def)

lemma FileManager_allowed_extensions:
  "allowed_extensions FileManager = keys (extension_readers FileManager)"
  by (simp add: FileManager_def Let_def)

lemma FileManager_allowed_extensions_list:
  "allowed_extensions FileManager = [''csv'', ''json'', ''pickle'', ''html'', ''xml'', ''db'']"
  by (simp add: FileManager_allowed_extensions FileManager_extension_readers keys_def)

lemma map_of_None_iff_keys: "map_of d k = None \<longleftrightarrow> k \<notin> set (keys d)"
  by (simp add: keys_def map_of_eq_None_iff)

lemma dialect_tags_no_dot:
  "\<forall>k\<in>set (keys (database_readers FileManager)). CHR ''.'' \<notin> set k"
  by (simp add: FileManager_database_readers keys_def)

lemma dotted_not_dialect:
  assumes "CHR ''.'' \<in> set path"
  shows "map_of (database_readers FileManager) path = None"
proof -
  have "path \<notin> set (keys (database_readers FileManager))"
    using assms dialect_tags_no_dot by blast
  then show ?thesis by (simp add: map_of_None_iff_keys)
qed

lemma suffix_cases:
  assumes "map_of (extension_readers FileManager) s = Some r"
  shows "(s, r) \<in> {(''csv'', CsvReader), (''json'', JsonReader), (''pickle'', PickleReader),
      (''html'', HtmlReader), (''xml'', XmlReader), (''db'', SqliteReader)}"
  using map_of_SomeD [OF assms] by (simp add: FileManager_extension_readers)

lemma suffix_no_dot:
  assumes "map_of (extension_readers FileManager) s = Some r"
  shows "CHR ''.'' \<notin> set s"
  using suffix_cases [OF assms] by auto

lemma resolve_registered_suffix:
  assumes "map_of (extension_readers FileManager) s = Some r"
  shows "resolve FileManager (''x.'' @ s) = Inr r"
proof -
  have nodot: "CHR ''.'' \<notin> set s" using assms by (rule suffix_no_dot)
  have ext: "last (split_chr CHR ''.'' (''x.'' @ s)) = s"
    using last_split_chr_suffix [OF nodot, of "''x''"] by simp
  have db: "map_of (database_readers FileManager) (''x.'' @ s) = None"
    by (rule dotted_not_dialect) simp
  have allowed: "s \<in> set (allowed_extensions FileManager)"
    using assms by (metis FileManager_allowed_extensions map_of_None_iff_keys option.distinct(1))
  have "validate_file FileManager (''x.'' @ s) = Inr s"
    unfolding validate_file_def Let_def ext using db allowed assms by simp
  then show ?thesis
    using assms by (simp add: resolve_def get_file_reader_class_def)
qed

lemma resolve_unknown_suffix:
  assumes "CHR ''.'' \<in> set path"
    and "last (split_chr CHR ''.'' path) \<notin> set (allowed_extensions FileManager)"
  shows "resolve FileManager path = Inl UnknownExtensionError"
  using assms dotted_not_dialect [OF assms(1)]
  by (simp add: resolve_def validate_file_def Let_def)

lemma resolve_unsupported_suffix:
  assumes "map_of (database_readers fmc) path = None"
    and "CHR ''.'' \<in> set path"
    and "last (split_chr CHR ''.'' path) \<in> set (allowed_extensions fmc)"
    and "map_of (extension_readers fmc) (last (split_chr CHR ''.'' path)) = None"
  shows "resolve fmc path = Inl UnsupportedExtensionError"
  using assms by (simp add: resolve_def validate_file_def Let_def)

lemma validate_file_dialect:
  assumes "map_of (database_readers fmc) d = Some r"
  shows "validate_file fmc d = Inr d"
  using assms by (simp add: validate_file_def)

lemma resolve_dialect_general:
  assumes "map_of (database_readers fmc) d = Some r"
    and "map_of (extension_readers fmc) d = None"
  shows "resolve fmc d = Inr r"
  using assms by (simp add: resolve_def validate_file_def get_file_reader_class_def)

lemma dialect_not_suffix:
  assumes "map_of (database_readers FileManager) d = Some r"
  shows "map_of (extension_readers FileManager) d = None"
  using map_of_SomeD [OF assms]
  by (auto simp: FileManager_database_readers FileManager_extension_readers)

lemma never_unsupported:
  assumes "allowed_extensions fmc = keys (extension_readers fmc)"
  shows "validate_file fmc path \<noteq> Inl UnsupportedExtensionError"
  using assms by (auto simp: validate_file_def Let_def map_of_None_iff_keys)

lemma get_file_reader_class_errors:
  "get_file_reader_class fmc e \<noteq> Inl UnsupportedExtensionError"
  by (simp add: get_file_reader_class_def split: option.splits)

text \<open>
  C4. For every suffix \<open>s\<close> of the registry of file readers, the identifier \<open>"x." + s\<close>
  resolves to the reader registered for \<open>s\<close>. An identifier with a dot whose trailing
  suffix is not in the list of allowed extensions fails with UnknownExtensionError. For
  any registries, an identifier that is not a dialect tag and whose trailing suffix is
  allowed but has no reader fails with UnsupportedExtensionError.
\<close>

theorem resolve_local_file:
  "(map_of (extension_readers FileManager) s = Some r \<longrightarrow>
      resolve FileManager (''x.'' @ s) = Inr r)
   \<and> (CHR ''.'' \<in> set path
        \<and> last (split_chr CHR ''.'' path) \<notin> set (allowed_extensions FileManager) \<longrightarrow>
      resolve FileManager path = Inl UnknownExtensionError)
   \<and> (map_of (database_readers fmc) path' = None \<and> CHR ''.'' \<in> set path'
        \<and> last (split_chr CHR ''.'' path') \<in> set (allowed_extensions fmc)
        \<and> map_of (extension_readers fmc) (last (split_chr CHR ''.'' path')) = None \<longrightarrow>
      resolve fmc path' = Inl UnsupportedExtensionError)"
  using resolve_registered_suffix resolve_unknown_suffix resolve_unsupported_suffix
  by blast

theorem resolve_local_file_witness:
  "resolve FileManager ''x.csv'' = Inr CsvReader
   \<and> resolve FileManager ''x.unknown'' = Inl UnknownExtensionError
   \<and> resolve \<lparr>extension_readers = [(''csv'', CsvReader)], database_readers = [],
        allowed_extensions = [''csv'', ''txt'']\<rparr> ''x.txt'' = Inl UnsupportedExtensionError"
proof -
  let ?fmc = "\<lparr>extension_readers = [(''csv'', CsvReader)], database_readers = [],
        allowed_extensions = [''csv'', ''txt'']\<rparr>"
  have h1: "map_of (extension_readers FileManager) ''csv'' = Some CsvReader"
    by (simp add: FileManager_extension_readers)
  have h2: "CHR ''.'' \<in> set ''x.unknown''
      \<and> last (split_chr CHR ''.'' ''x.unknown'') \<notin> set (allowed_extensions FileManager)"
    by (simp add: FileManager_allowed_extensions_list)
  have h3: "map_of (database_readers ?fmc) ''x.txt'' = None \<and> CHR ''.'' \<in> set ''x.txt''
        \<and> last (split_chr CHR ''.'' ''x.txt'') \<in> set (allowed_extensions ?fmc)
        \<and> map_of (extension_readers ?fmc) (last (split_chr CHR ''.'' ''x.txt'')) = None"
    by simp
  show ?thesis
    using resolve_local_file [of "''csv''" CsvReader "''x.unknown''" ?fmc "''x.txt''"] h1 h2 h3
    by simp
qed

text \<open>
  C5. Every dialect tag of the registry of database readers resolves to the reader
  registered for it. The test for a dialect tag comes before the suffix is looked at:
  for any registries, a tag that is not also a file suffix resolves to its reader,
  whether or not it has a dot.
\<close>

theorem resolve_dialect_tag:
  "(map_of (database_readers FileManager) d = Some r \<longrightarrow> resolve FileManager d = Inr r)
   \<and> (map_of (database_readers fmc) d' = Some r' \<and> map_of (extension_readers fmc) d' = None \<longrightarrow>
        validate_file fmc d' = Inr d' \<and> resolve fmc d' = Inr r')"
  using resolve_dialect_general dialect_not_suffix validate_file_dialect by blast

theorem resolve_dialect_tag_witness:
  "resolve FileManager ''mysql+pymysql'' = Inr MySQLReader
   \<and> CHR ''.'' \<in> set ''maria.db''
   \<and> resolve (FileManager\<lparr>database_readers := [(''maria.db'', MariaDBReader)]\<rparr>) ''maria.db''
       = Inr MariaDBReader"
proof -
  let ?fmc = "FileManager\<lparr>database_readers := [(''maria.db'', MariaDBReader)]\<rparr>"
  have h1: "map_of (database_readers FileManager) ''mysql+pymysql'' = Some MySQLReader"
    by (simp add: FileManager_database_readers)
  have h2: "map_of (database_readers ?fmc) ''maria.db'' = Some MariaDBReader
      \<and> map_of (extension_readers ?fmc) ''maria.db'' = None"
    by (simp add: FileManager_extension_readers)
  show ?thesis
    using resolve_dialect_tag [of "''mysql+pymysql''" MySQLReader ?fmc "''maria.db''" MariaDBReader]
      h1 h2 by simp
qed

text \<open>
  C10. The list of allowed extensions is the list of the keys of the registry of file
  readers, so a suffix that is allowed always has a reader, and neither the validation
  of an identifier nor its resolution ever fails with UnsupportedExtensionError.
\<close>

theorem unsupported_extension_unreachable:
  "allowed_extensions FileManager = keys (extension_readers FileManager)
   \<and> (extension \<in> set (allowed_extensions FileManager) \<longrightarrow>
        map_of (extension_readers FileManager) extension \<noteq> None)
   \<and> validate_file FileManager path \<noteq> Inl UnsupportedExtensionError
   \<and> resolve FileManager path \<noteq> Inl UnsupportedExtensionError"
proof -
  have a: "allowed_extensions FileManager = keys (extension_readers FileManager)"
    by (rule FileManager_allowed_extensions)
  have b: "validate_file FileManager path \<noteq> Inl UnsupportedExtensionError"
    using a by (rule never_unsupported)
  have c: "resolve FileManager path \<noteq> Inl UnsupportedExtensionError"
    using b get_file_reader_class_errors
    by (auto simp: resolve_def split: sum.splits)
  show ?thesis using a b c by (simp add: map_of_None_iff_keys)
qed

theorem unsupported_extension_unreachable_witness:
  "''db'' \<in> set (allowed_extensions FileManager)
   \<and> map_of (extension_readers FileManager) ''db'' \<noteq> None
   \<and> validate_file FileManager ''sales.db'' \<noteq> Inl UnsupportedExtensionError"
proof -
  have h: "''db'' \<in> set (allowed_extensions FileManager)"
    by (simp add: FileManager_allowed_extensions_list)
  show ?thesis
    using unsupported_extension_unreachable [of "''db''" "''sales.db''"] h by simp
qed

section \<open>Properties of the readers\<close>

lemma filter_and_return_Inr: "filter_and_return (Inr t) = Inr (RTable t)"
  by (simp add: filter_and_return_def)

lemma read_XmlReader:
  "cls r = XmlReader \<Longrightarrow> read pd r \<noteq> Inr (RTable t)"
  by (simp add: read_def XmlReader_read_def Let_def split: sum.splits)

text \<open>
  C2. Every reader but the HTML and the XML one is claimed to return a table that keeps
  the numeric columns only. The result of \<open>select_dtypes\<close> is bound to nothing in each
  of them: on a source whose table has the text column \<open>name\<close>, the CSV, JSON, pickle,
  SQLite and the three database readers all return the parsed table with that column.
\<close>

theorem readers_return_unfiltered_table:
  "''name'' \<in> set (columns example_table)
   \<and> ''name'' \<notin> set (columns (select_dtypes_number example_table))
   \<and> open_file example_pandas FileManager ''data.csv'' [] = Inr (RTable example_table)
   \<and> open_file example_pandas FileManager ''data.json'' [] = Inr (RTable example_table)
   \<and> open_file example_pandas FileManager ''data.pickle'' [] = Inr (RTable example_table)
   \<and> open_file example_pandas FileManager ''sales.db'' [(''table_name'', VStr ''t'')]
       = Inr (RTable example_table)
   \<and> open_file example_pandas FileManager ''mysql+pymysql'' example_credentials
       = Inr (RTable example_table)
   \<and> open_file example_pandas FileManager ''postgresql+psycopg2'' example_credentials
       = Inr (RTable example_table)
   \<and> open_file example_pandas FileManager ''mariadb+pymysql'' example_credentials
       = Inr (RTable example_table)"
  by code_simp

text \<open>
  C3. The XML reader is claimed to return the unfiltered parsed table. Its \<open>read\<close> has
  no \<open>return\<close>: for a source that parses to a table it returns \<open>None\<close>.
\<close>

theorem xml_read_returns_none:
  "open_file example_pandas FileManager ''data.xml'' [] = Inr RNone"
  by code_simp

text \<open>
  C9. The HTML reader is claimed to return the first or only table of the document as a
  single table. It returns what \<open>read_html\<close> gives, the list of the tables: for a
  document with one table, the list with that table.
\<close>

theorem html_read_returns_list:
  "open_file example_pandas FileManager ''page.html'' [] = Inr (RTables [example_table])
   \<and> RTables [example_table] \<noteq> RTable example_table"
  by code_simp

section \<open>Properties of the file manager\<close>

lemma map_of_dict_update2:
  "map_of (dict_update d [(a, x), (b, y)]) = (map_of d)(a \<mapsto> x, b \<mapsto> y)"
  by (simp add: dict_update_def update_conv')

text \<open>
  C6. For an identifier that resolves to a reader class, a second call of
  \<open>get_required_fields\<close> on the same manager gives the same manager, schema and labels as
  the first; the schema is that of the reader class joined with \<open>plot_verbose\<close> and
  \<open>plot_value\<close>, both strings, and the labels are joined in the same way.
\<close>

theorem get_required_fields_idempotent:
  assumes "resolve FileManager path = Inr rc"
  shows "get_required_fields FileManager (fst (get_required_fields FileManager self path)) path
           = get_required_fields FileManager self path
         \<and> (\<exists>schema labels.
              snd (get_required_fields FileManager self path) = Inr (schema, labels)
              \<and> map_of schema =
                  (map_of (required_fields rc))(''plot_verbose'' \<mapsto> PyStr, ''plot_value'' \<mapsto> PyStr)
              \<and> map_of schema = map_of (required_fields rc) ++ map_of FileManager_required_fields
              \<and> map_of labels = map_of (required_fields_verbose_names rc)
                  ++ map_of FileManager_required_fields_verbose_names)"
  using assms
  by (simp add: get_required_fields_def Let_def FileManager_required_fields_def
      FileManager_required_fields_verbose_names_def map_of_dict_update2 map_add_def fun_eq_iff)

theorem get_required_fields_idempotent_witness:
  "resolve FileManager ''sales.db'' = Inr SqliteReader
   \<and> get_required_fields FileManager
        (fst (get_required_fields FileManager file_manager_init ''sales.db'')) ''sales.db''
       = get_required_fields FileManager file_manager_init ''sales.db''
   \<and> snd (get_required_fields FileManager file_manager_init ''sales.db'')
       = Inr ([(''table_name'', PyStr), (''plot_verbose'', PyStr), (''plot_value'', PyStr)],
              [(''table_name'', ''Table name''), (''plot_verbose'', ''Axis label column''),
               (''plot_value'', ''Axis value column'')])"
proof -
  have h: "resolve FileManager ''sales.db'' = Inr SqliteReader" by code_simp
  have v: "snd (get_required_fields FileManager file_manager_init ''sales.db'')
       = Inr ([(''table_name'', PyStr), (''plot_verbose'', PyStr), (''plot_value'', PyStr)],
              [(''table_name'', ''Table name''), (''plot_verbose'', ''Axis label column''),
               (''plot_value'', ''Axis value column'')])" by code_simp
  show ?thesis
    using get_required_fields_idempotent [OF h, of file_manager_init] h v by simp
qed

lemma getitem_table:
  "getitem (RTable t) (VStr n) =
     (if n \<in> set (columns t) then Inr (PlotColumn (the (map_of t n)))
      else Inl (KeyError (VStr n)))"
  by (auto simp: columns_def map_of_eq_None_iff split: option.splits dest: map_of_SomeD
      intro: rev_image_eqI)

lemma reader_init_extra_kwargs:
  "reader_init c path nv kwargs = Inr r \<Longrightarrow> extra_kwargs r = kwargs \<and> cls r = c"
  by (auto simp: reader_init_def Let_def split: sum.splits if_splits)

text \<open>
  C7. When the keyword arguments name the two axis columns and the reader, built from
  the arguments without these two names, reads a table, \<open>generate_chart\<close> fails with the
  KeyError of the first axis column that the table does not have (the specification's
  ColumnNotFoundError), and otherwise plots the label column against the value column,
  in this order. The reader instance has neither of the two names in its arguments.
\<close>

theorem generate_chart_columns:
  assumes "map_of kwargs ''plot_verbose'' = Some (VStr xn)"
    and "map_of kwargs ''plot_value'' = Some (VStr yn)"
    and "resolve fmc path = Inr rc"
    and "reader_init rc path False
           (AList.delete ''plot_value'' (AList.delete ''plot_verbose'' kwargs)) = Inr r"
    and "read pd r = Inr (RTable t)"
  shows "snd (generate_chart pd fmc self path kwargs) =
           (if xn \<notin> set (columns t) then Inl (KeyError (VStr xn))
            else if yn \<notin> set (columns t) then Inl (KeyError (VStr yn))
            else Inr (Figure (PlotColumn (the (map_of t xn))) (PlotColumn (the (map_of t yn)))))
         \<and> map_of (extra_kwargs r) ''plot_verbose'' = None
         \<and> map_of (extra_kwargs r) ''plot_value'' = None"
proof -
  let ?kw = "AList.delete ''plot_value'' (AList.delete ''plot_verbose'' kwargs)"
  have pv: "map_of (AList.delete ''plot_verbose'' kwargs) ''plot_value'' = Some (VStr yn)"
    using assms(2) by (simp add: delete_conv')
  have op: "open_file pd fmc path ?kw = Inr (RTable t)"
    using assms(3,4,5) by (simp add: open_file_def)
  have kw: "extra_kwargs r = ?kw"
    using reader_init_extra_kwargs [OF assms(4)] by simp
  have none: "map_of ?kw ''plot_verbose'' = None \<and> map_of ?kw ''plot_value'' = None"
    by (simp add: delete_conv')
  have "snd (generate_chart pd fmc self path kwargs) =
           (if xn \<notin> set (columns t) then Inl (KeyError (VStr xn))
            else if yn \<notin> set (columns t) then Inl (KeyError (VStr yn))
            else Inr (Figure (PlotColumn (the (map_of t xn))) (PlotColumn (the (map_of t yn)))))"
    unfolding generate_chart_def Let_def
    by (simp add: assms(1) pv op getitem_table del: getitem.simps)
  then show ?thesis using kw none by simp
qed

theorem generate_chart_columns_witness:
  "snd (generate_chart example_pandas FileManager file_manager_init ''sales.db''
          [(''table_name'', VStr ''t''), (''plot_verbose'', VStr ''x''),
           (''plot_value'', VStr ''z'')])
     = Inl (KeyError (VStr ''z''))
   \<and> snd (generate_chart example_pandas FileManager file_manager_init ''sales.db''
          [(''table_name'', VStr ''t''), (''plot_verbose'', VStr ''x''),
           (''plot_value'', VStr ''y'')])
     = Inr (Figure (PlotColumn (Int64, [VInt 1, VInt 2])) (PlotColumn (Int64, [VInt 3, VInt 4])))"
proof -
  let ?kz = "[(''table_name'', VStr ''t''), (''plot_verbose'', VStr ''x''),
           (''plot_value'', VStr ''z'')]"
  let ?ky = "[(''table_name'', VStr ''t''), (''plot_verbose'', VStr ''x''),
           (''plot_value'', VStr ''y'')]"
  let ?r = "\<lparr>cls = SqliteReader, file_path = ''sales.db'',
             extra_kwargs = [(''table_name'', VStr ''t'')], no_validate = False\<rparr>"
  have h1: "map_of ?kz ''plot_verbose'' = Some (VStr ''x'')" by simp
  have h2: "map_of ?kz ''plot_value'' = Some (VStr ''z'')" by simp
  have g1: "map_of ?ky ''plot_verbose'' = Some (VStr ''x'')" by simp
  have g2: "map_of ?ky ''plot_value'' = Some (VStr ''y'')" by simp
  have h3: "resolve FileManager ''sales.db'' = Inr SqliteReader" by code_simp
  have h4: "reader_init SqliteReader ''sales.db'' False
           (AList.delete ''plot_value'' (AList.delete ''plot_verbose'' ?kz)) = Inr ?r"
    by code_simp
  have g4: "reader_init SqliteReader ''sales.db'' False
           (AList.delete ''plot_value'' (AList.delete ''plot_verbose'' ?ky)) = Inr ?r"
    by code_simp
  have h5: "read example_pandas ?r = Inr (RTable example_table)" by code_simp
  have c: "columns example_table = [''name'', ''x'', ''y'']" by code_simp
  have mx: "map_of example_table ''x'' = Some (Int64, [VInt 1, VInt 2])" by code_simp
  have my: "map_of example_table ''y'' = Some (Int64, [VInt 3, VInt 4])" by code_simp
  show ?thesis
    using generate_chart_columns [OF h1 h2 h3 h4 h5, of file_manager_init]
      generate_chart_columns [OF g1 g2 h3 g4 h5, of file_manager_init]
    by (simp add: c mx my)
qed

end
